theory Spec2Isabelle
  imports Main "HOL-Library.Word" "HOL-Library.Sublist"
begin

section \<open>JavaScript values\<close>

text \<open>
  A JavaScript string is a sequence of UTF-16 code units, and \<open>length\<close>, \<open>slice\<close> and
  \<open>startsWith\<close> count code units. A \<open>Buffer\<close> is a sequence of bytes. The literals of
  \<^verbatim>\<open>server.js\<close> are ASCII; \<open>js\<close> embeds them.
\<close>

type_synonym jschar = "16 word"
type_synonym jsstring = "jschar list"
type_synonym buffer = "8 word list"

definition js :: "string \<Rightarrow> jsstring" where
  "js s = map (\<lambda>c. of_nat (of_char c)) s"

text \<open>The line feed of the template literals (\<^verbatim>\<open>\n\<close>).\<close>

definition nl :: jsstring where
  "nl = [10]"

text \<open>Truthiness of a string, and of a value that is a string or \<^verbatim>\<open>undefined\<close>.\<close>

definition truthy :: "jsstring \<Rightarrow> bool" where
  "truthy s = (s \<noteq> [])"

definition truthy_opt :: "jsstring option \<Rightarrow> bool" where
  "truthy_opt v = (case v of None \<Rightarrow> False | Some s \<Rightarrow> truthy s)"

text \<open>\<^verbatim>\<open>v || ''\<close> and \<^verbatim>\<open>v || null\<close>.\<close>

definition or_empty :: "jsstring option \<Rightarrow> jsstring" where
  "or_empty v = (case v of None \<Rightarrow> [] | Some s \<Rightarrow> s)"


definition startsWith :: "jsstring \<Rightarrow> jsstring \<Rightarrow> bool" where
  "startsWith s pre = prefix pre s"

text \<open>
  A non-negative integer in a template literal (\<^verbatim>\<open>${text.length - limit}\<close>,
  \<^verbatim>\<open>${Date.now()}\<close>): its decimal digits, most significant first.
\<close>

fun number_to_string :: "nat \<Rightarrow> jsstring" where
  "number_to_string n =
     (if n < 10 then [48 + of_nat n]
      else number_to_string (n div 10) @ [48 + of_nat (n mod 10)])"

text \<open>Reading a decimal numeral back: \<open>None\<close> unless every code unit is a digit.\<close>

definition digit_value :: "jschar \<Rightarrow> nat option" where
  "digit_value c = (if 48 \<le> unat c \<and> unat c \<le> 57 then Some (unat c - 48) else None)"

fun decimal_from :: "nat \<Rightarrow> jsstring \<Rightarrow> nat option" where
  "decimal_from acc [] = Some acc"
| "decimal_from acc (c # cs) =
     (case digit_value c of None \<Rightarrow> None | Some d \<Rightarrow> decimal_from (10 * acc + d) cs)"

definition decimal_value :: "jsstring \<Rightarrow> nat option" where
  "decimal_value s = (if s = [] then None else decimal_from 0 s)"

section \<open>Truncation of extracted text\<close>

text \<open>
  \<^verbatim>\<open>
  function truncateText(text, limit = 12000) {
    if (!text) return '';
    if (text.length <= limit) return text;
    return `${text.slice(0, limit)}\n\n[Truncated ${text.length - limit} chars]`;
  }
  \<close>
  Every caller leaves \<open>limit\<close> at its default.
\<close>

definition default_limit :: nat where
  "default_limit = 12000"

definition truncateText :: "jsstring \<Rightarrow> nat \<Rightarrow> jsstring" where
  "truncateText text limit =
     (if \<not> truthy text then []
      else if length text \<le> limit then text
      else take limit text @ nl @ nl @ js ''[Truncated '' @
           number_to_string (length text - limit) @ js '' chars]'')"

text \<open>
  \<open>String.prototype.trim\<close>: the white space and line terminator code units of
  ECMAScript are removed from both ends.
\<close>

definition isWhiteSpace :: "jschar \<Rightarrow> bool" where
  "isWhiteSpace c =
     (c \<in> {0x9, 0xA, 0xB, 0xC, 0xD, 0x20, 0xA0, 0x1680, 0x2028, 0x2029, 0x202F, 0x205F,
            0x3000, 0xFEFF}
      \<or> (0x2000 \<le> c \<and> c \<le> 0x200A))"

definition trim :: "jsstring \<Rightarrow> jsstring" where
  "trim s = rev (dropWhile isWhiteSpace (rev (dropWhile isWhiteSpace s)))"

text \<open>\<open>Array.prototype.join\<close> on strings.\<close>

fun join :: "jsstring \<Rightarrow> jsstring list \<Rightarrow> jsstring" where
  "join sep [] = []"
| "join sep [x] = x"
| "join sep (x # y # ys) = x @ sep @ join sep (y # ys)"

text \<open>\<^verbatim>\<open>s.replace(/\/$/, '')\<close>: one slash at the end of the input is dropped.\<close>

definition strip_trailing_slash :: "jsstring \<Rightarrow> jsstring" where
  "strip_trailing_slash s = (if s \<noteq> [] \<and> last s = 47 then butlast s else s)"

section \<open>Data model\<close>

text \<open>A thrown \<open>Error\<close>, with its message.\<close>

datatype error = Error (message: jsstring)

text \<open>
  What \<open>JSON.parse\<close> returns: any JSON value. A number is the finite double
  \<open>m * 2 ^ e\<close>, written \<open>JNum m e\<close>; an object is its list of properties. The credential
  file is meant to hold \<^verbatim>\<open>{users: [{uid, password, nickname}]}\<close>, but nothing in
  \<^verbatim>\<open>server.js\<close> checks that it does.
\<close>

datatype json =
    JNull
  | JBool bool
  | JNum int int
  | JStr jsstring
  | JArr "json list"
  | JObj "(jsstring \<times> json) list"

text \<open>
  \<^verbatim>\<open>req.session\<close>: both fields are absent until a login sets them. The uid is always a
  string (the login stores a value that was strictly equal to the string of the request);
  the nickname is whatever the login or the nickname update stored.
\<close>

record session =
  session_uid :: "jsstring option"
  session_nickname :: "json option"

text \<open>
  The file part of a multipart request, and \<^verbatim>\<open>req.file\<close> as multer's disk storage
  leaves it.
\<close>

record file_part =
  part_filename :: jsstring
  part_mimetype :: jsstring
  part_content :: buffer

record multer_file =
  originalname :: jsstring
  mimetype :: jsstring
  path :: jsstring

record inline_image =
  mimeType :: jsstring
  data :: jsstring

record extraction =
  extracted_text :: jsstring
  inlineImage :: "inline_image option"

record 's workbook =
  SheetNames :: "jsstring list"
  Sheets :: "jsstring \<Rightarrow> 's option"

text \<open>The parts of the user message: \<^verbatim>\<open>{text}\<close> or \<^verbatim>\<open>{inline_data: {mime_type, data}}\<close>.\<close>

datatype part = TextPart jsstring | InlineData jsstring jsstring

record put_object =
  Bucket :: "jsstring option"
  Key :: jsstring
  Body :: jsstring
  ContentType :: jsstring

record fetch_request =
  url :: jsstring
  x_goog_api_key :: jsstring
  systemInstruction :: jsstring
  responseModalities :: "jsstring list option"
  contents_parts :: "part list"

text \<open>
  The reply of the generative API: \<open>candidate_parts\<close> is
  \<^verbatim>\<open>data?.candidates?.[0]?.content?.parts\<close>, \<open>raw_json\<close> the whole body.
\<close>

record inline_out =
  out_data :: "jsstring option"
  out_mimeType :: "jsstring option"
  out_mime_type :: "jsstring option"

record out_part =
  out_text :: "jsstring option"
  out_inlineData :: "inline_out option"
  out_inline_data :: "inline_out option"

record api_data =
  candidate_parts :: "out_part list option"
  raw_json :: jsstring

record api_response =
  response_ok :: bool
  response_status :: nat
  response_json :: "error + api_data"

datatype body =
    ErrorBody jsstring
  | ErrorDetails jsstring api_data
  | LoginOk bool
  | SessionBody bool "jsstring option" "json option"
  | NicknameOk jsstring
  | BotReply jsstring "jsstring option" "jsstring option" api_data

record response =
  status :: nat
  body :: body

text \<open>
  What the handlers touch outside the request: the credential file, the files on disk, and
  the log of the store accesses, file reads and network calls made so far, oldest first.
  The credential file is \<open>None\<close> when it does not exist, \<open>Some (Inl err)\<close> when it exists
  and reading it throws \<open>err\<close> (a directory, a file without read permission), and
  \<open>Some (Inr raw)\<close> when it is read as the text \<open>raw\<close>.
\<close>

datatype event =
    ReadUsers
  | WriteUsers jsstring
  | ReadFile jsstring
  | S3Send put_object
  | Fetch fetch_request
  | Unlink jsstring

record world =
  users_json :: "(error + jsstring) option"
  disk :: "jsstring \<Rightarrow> buffer option"
  trace :: "event list"

type_synonym env = "jsstring \<Rightarrow> jsstring option"

text \<open>
  The library functions and the outside world that \<^verbatim>\<open>server.js\<close> calls and does not
  define: string case mapping, \<open>path.extname\<close>, \<open>mime.lookup\<close> (\<open>None\<close> for
  \<^verbatim>\<open>false\<close>), the buffer decoders, the document parsers (\<open>Inl\<close> when they throw),
  \<open>JSON.parse\<close> (\<open>None\<close> for a syntax error) and \<open>JSON.stringify\<close>, the object store,
  the generative API, the clock, the random source and the server's directory.
  \<open>'r\<close> is a CSV record, \<open>'s\<close> a worksheet.
\<close>

record ('r, 's) platform =
  toUpperCase :: "jsstring \<Rightarrow> jsstring"
  toLowerCase :: "jsstring \<Rightarrow> jsstring"
  extname :: "jsstring \<Rightarrow> jsstring"
  mime_lookup :: "jsstring \<Rightarrow> jsstring option"
  toString_base64 :: "buffer \<Rightarrow> jsstring"
  toString_utf8 :: "buffer \<Rightarrow> jsstring"
  pdfParse :: "buffer \<Rightarrow> error + jsstring option"
  extractRawText :: "buffer \<Rightarrow> error + jsstring option"
  csv_parse :: "buffer \<Rightarrow> error + 'r list"
  JSON_stringify_records :: "'r list \<Rightarrow> jsstring"
  xlsx_read :: "buffer \<Rightarrow> error + 's workbook"
  sheet_to_csv :: "'s option \<Rightarrow> error + jsstring"
  JSON_parse_text :: "jsstring \<Rightarrow> json option"
  JSON_stringify :: "json \<Rightarrow> jsstring"
  s3_send :: "put_object \<Rightarrow> error + unit"
  fetch :: "fetch_request \<Rightarrow> error + api_response"
  date_now :: nat
  randomBytes_hex :: "nat \<Rightarrow> jsstring"
  dirname :: jsstring

text \<open>The requests, as the body parsers and multer leave them in \<^verbatim>\<open>req\<close>.\<close>

record login_request =
  body_uid :: "jsstring option"
  body_password :: "jsstring option"

record nickname_request =
  body_nickname :: "jsstring option"

record bot_request =
  param_botId :: jsstring
  body_text :: "jsstring option"
  body_chartType :: "jsstring option"
  upload :: "file_part option"

section \<open>Credential store\<close>

text \<open>Truthiness of a JSON value, and of one that may be \<^verbatim>\<open>undefined\<close>.\<close>

fun json_truthy :: "json \<Rightarrow> bool" where
  "json_truthy JNull = False"
| "json_truthy (JBool b) = b"
| "json_truthy (JNum m e) = (m \<noteq> 0)"
| "json_truthy (JStr s) = (s \<noteq> [])"
| "json_truthy (JArr xs) = True"
| "json_truthy (JObj kvs) = True"

definition json_truthy_opt :: "json option \<Rightarrow> bool" where
  "json_truthy_opt v = (case v of None \<Rightarrow> False | Some j \<Rightarrow> json_truthy j)"

text \<open>
  The \<open>TypeError\<close> of reading a property of \<^verbatim>\<open>null\<close> or \<^verbatim>\<open>undefined\<close>, and of
  calling what is not a function, with the messages of V8.
\<close>

definition cannot_read :: "jsstring \<Rightarrow> jsstring \<Rightarrow> error" where
  "cannot_read what k =
     Error (js ''Cannot read properties of '' @ what @ js '' (reading '' @ [39] @ k @ [39] @ js '')'')"

definition not_a_function :: "jsstring \<Rightarrow> error" where
  "not_a_function what = Error (what @ js '' is not a function'')"

text \<open>
  \<open>v.k\<close> for a JSON value \<open>v\<close> and the property names that \<^verbatim>\<open>server.js\<close> reads
  (\<open>users\<close>, \<open>uid\<close>, \<open>password\<close>, \<open>nickname\<close>): \<^verbatim>\<open>null\<close> throws, an object gives its
  property or \<^verbatim>\<open>undefined\<close>, every other value gives \<^verbatim>\<open>undefined\<close>.
\<close>

fun get_prop :: "json \<Rightarrow> jsstring \<Rightarrow> error + json option" where
  "get_prop JNull k = Inl (cannot_read (js ''null'') k)"
| "get_prop (JObj kvs) k = Inr (map_of kvs k)"
| "get_prop (JBool b) k = Inr None"
| "get_prop (JNum m e) k = Inr None"
| "get_prop (JStr s) k = Inr None"
| "get_prop (JArr xs) k = Inr None"

text \<open>\<open>o.k = v\<close> on the properties of an object: the property keeps its place.\<close>

fun set_prop :: "(jsstring \<times> json) list \<Rightarrow> jsstring \<Rightarrow> json \<Rightarrow> (jsstring \<times> json) list" where
  "set_prop [] k v = [(k, v)]"
| "set_prop ((k', v') # kvs) k v =
     (if k' = k then (k, v) # kvs else (k', v') # set_prop kvs k v)"

text \<open>
  \<open>Array.prototype.find\<close> with a callback that may throw: the elements are tried in
  order, up to the first for which the callback is true.
\<close>

fun array_find :: "(json \<Rightarrow> error + bool) \<Rightarrow> json list \<Rightarrow> error + json option" where
  "array_find cb [] = Inr None"
| "array_find cb (u # us) =
     (case cb u of
        Inl err \<Rightarrow> Inl err
      | Inr True \<Rightarrow> Inr (Some u)
      | Inr False \<Rightarrow> array_find cb us)"

text \<open>
  \<open>data.users.find(cb)\<close>: reading \<open>users\<close> of \<^verbatim>\<open>null\<close> throws, and so does the call
  of \<open>find\<close> on anything but an array.
\<close>

definition users_find :: "json \<Rightarrow> (json \<Rightarrow> error + bool) \<Rightarrow> error + json option" where
  "users_find d cb =
     (case get_prop d (js ''users'') of
        Inl err \<Rightarrow> Inl err
      | Inr None \<Rightarrow> Inl (cannot_read (js ''undefined'') (js ''find''))
      | Inr (Some JNull) \<Rightarrow> Inl (cannot_read (js ''null'') (js ''find''))
      | Inr (Some (JArr xs)) \<Rightarrow> array_find cb xs
      | Inr (Some (JBool b)) \<Rightarrow> Inl (not_a_function (js ''data.users.find''))
      | Inr (Some (JNum m e)) \<Rightarrow> Inl (not_a_function (js ''data.users.find''))
      | Inr (Some (JStr t)) \<Rightarrow> Inl (not_a_function (js ''data.users.find''))
      | Inr (Some (JObj kvs)) \<Rightarrow> Inl (not_a_function (js ''data.users.find'')))"

text \<open>
  \<open>JSON.parse\<close> is the platform's, except on the one literal that \<^verbatim>\<open>server.js\<close>
  itself passes to it, which denotes the object \<^verbatim>\<open>{ users: [] }\<close>.
\<close>

definition empty_store :: json where
  "empty_store = JObj [(js ''users'', JArr [])]"

definition JSON_parse :: "('r, 's) platform \<Rightarrow> jsstring \<Rightarrow> json option" where
  \<open>JSON_parse p raw =
     (if raw = js ''{"users":[]}'' then Some empty_store else JSON_parse_text p raw)\<close>

text \<open>
  \<^verbatim>\<open>
  function readUsers() {
    if (!fs.existsSync(usersPath)) {
      return { users: [] };
    }
    const raw = fs.readFileSync(usersPath, 'utf8');
    try {
      return JSON.parse(raw || '{"users":[]}');
    } catch (err) {
      console.error('Invalid users.json. Resetting to empty list.');
      return { users: [] };
    }
  }
  \<close>
  \<open>fs.readFileSync\<close> is outside the \<^verbatim>\<open>try\<close>: its error is the error of \<open>readUsers\<close>.
  Whatever value \<open>JSON.parse\<close> returns is returned as it is.
\<close>

definition readUsers :: "('r, 's) platform \<Rightarrow> world \<Rightarrow> (error + json) \<times> world" where
  \<open>readUsers p w =
     (let w1 = w\<lparr>trace := trace w @ [ReadUsers]\<rparr> in
      case users_json w of
        None \<Rightarrow> (Inr empty_store, w1)
      | Some (Inl err) \<Rightarrow> (Inl err, w1)
      | Some (Inr raw) \<Rightarrow>
          (case JSON_parse p (if truthy raw then raw else js ''{"users":[]}'') of
             Some parsed \<Rightarrow> (Inr parsed, w1)
           | None \<Rightarrow> (Inr empty_store, w1)))\<close>

text \<open>
  \<^verbatim>\<open>
  function writeUsers(data) {
    fs.writeFileSync(usersPath, JSON.stringify(data, null, 2));
  }
  \<close>
  The write is taken to succeed.
\<close>

definition writeUsers :: "('r, 's) platform \<Rightarrow> world \<Rightarrow> json \<Rightarrow> world" where
  "writeUsers p w d =
     w\<lparr>users_json := Some (Inr (JSON_stringify p d)),
       trace := trace w @ [WriteUsers (JSON_stringify p d)]\<rparr>"

section \<open>Upload layer\<close>

text \<open>
  \<^verbatim>\<open>
  fileFilter: (req, file, cb) => {
    if (file.mimetype.startsWith('audio/') || file.mimetype.startsWith('video/')) {
      return cb(new Error('Audio/video files are not supported.'));
    }
    cb(null, true);
  }
  \<close>
\<close>

definition fileFilter :: "file_part \<Rightarrow> error option" where
  "fileFilter f =
     (if startsWith (part_mimetype f) (js ''audio/'') \<or> startsWith (part_mimetype f) (js ''video/'')
      then Some (Error (js ''Audio/video files are not supported.''))
      else None)"

definition fileSize_limit :: nat where
  "fileSize_limit = 25 * 1024 * 1024"

definition uploadDir :: "('r, 's) platform \<Rightarrow> jsstring" where
  "uploadDir p = dirname p @ js ''/uploads''"

text \<open>
  \<open>upload.single('file')\<close>: no file part leaves \<open>req.file\<close> undefined; a part that the
  filter refuses, or that is longer than the limit, ends the request with an error and
  stores nothing; any other part is written under the upload directory, named by
  \<^verbatim>\<open>`${Date.now()}-${crypto.randomBytes(6).toString('hex')}${ext}`\<close>.
\<close>

definition upload_single ::
  "('r, 's) platform \<Rightarrow> world \<Rightarrow> file_part option \<Rightarrow> (error + multer_file option) \<times> world" where
  "upload_single p w fp =
     (case fp of
        None \<Rightarrow> (Inr None, w)
      | Some f \<Rightarrow>
          (case fileFilter f of
             Some err \<Rightarrow> (Inl err, w)
           | None \<Rightarrow>
               if fileSize_limit < length (part_content f) then (Inl (Error (js ''File too large'')), w)
               else
                 let ext = extname p (part_filename f);
                     name = number_to_string (date_now p) @ js ''-'' @ randomBytes_hex p 6 @ ext;
                     stored = uploadDir p @ js ''/'' @ name
                 in (Inr (Some \<lparr>originalname = part_filename f, mimetype = part_mimetype f,
                                 path = stored\<rparr>),
                     w\<lparr>disk := (disk w)(stored \<mapsto> part_content f)\<rparr>)))"

text \<open>
  \<^verbatim>\<open>
  app.use((err, req, res, next) => {
    if (err) {
      const message = err.message || 'Upload failed';
      return res.status(400).json({ error: message });
    }
    next();
  });
  \<close>
\<close>

definition error_middleware :: "error \<Rightarrow> response" where
  "error_middleware err =
     \<lparr>status = 400,
      body = ErrorBody (if truthy (message err) then message err else js ''Upload failed'')\<rparr>"

section \<open>Object upload\<close>

text \<open>
  \<^verbatim>\<open>
  const r2Enabled = !!(process.env.R2_ENDPOINT && process.env.R2_ACCESS_KEY_ID &&
    process.env.R2_SECRET_ACCESS_KEY && process.env.R2_BUCKET);
  const r2Client = r2Enabled ? new S3Client({...}) : null;
  \<close>
\<close>

definition r2Enabled :: "env \<Rightarrow> bool" where
  "r2Enabled env =
     (truthy_opt (env (js ''R2_ENDPOINT'')) \<and> truthy_opt (env (js ''R2_ACCESS_KEY_ID'')) \<and>
      truthy_opt (env (js ''R2_SECRET_ACCESS_KEY'')) \<and> truthy_opt (env (js ''R2_BUCKET'')))"

text \<open>
  \<^verbatim>\<open>
  async function uploadToR2(file) {
    if (!r2Client) return null;
    const key = `uploads/${Date.now()}-${crypto.randomBytes(8).toString('hex')}-${file.originalname}`;
    const contentType = file.mimetype || mime.lookup(file.originalname) || 'application/octet-stream';
    await r2Client.send(new PutObjectCommand({
      Bucket: process.env.R2_BUCKET, Key: key,
      Body: fs.createReadStream(file.path), ContentType: contentType
    }));
    if (process.env.R2_PUBLIC_URL) {
      return `${process.env.R2_PUBLIC_URL.replace(/\/$/, '')}/${key}`;
    }
    return null;
  }
  \<close>
  The body of the command is the stream of the file at \<open>file.path\<close>.
\<close>

definition uploadToR2 ::
  "('r, 's) platform \<Rightarrow> env \<Rightarrow> world \<Rightarrow> multer_file \<Rightarrow> (error + jsstring option) \<times> world" where
  "uploadToR2 p env w file =
     (if \<not> r2Enabled env then (Inr None, w)
      else
        let key = js ''uploads/'' @ number_to_string (date_now p) @ js ''-'' @
                  randomBytes_hex p 8 @ js ''-'' @ originalname file;
            contentType =
              (if truthy (mimetype file) then mimetype file
               else if truthy_opt (mime_lookup p (originalname file))
                 then or_empty (mime_lookup p (originalname file))
               else js ''application/octet-stream'');
            command = \<lparr>Bucket = env (js ''R2_BUCKET''), Key = key, Body = path file,
                       ContentType = contentType\<rparr>;
            w1 = w\<lparr>trace := trace w @ [S3Send command]\<rparr>
        in case s3_send p command of
             Inl err \<Rightarrow> (Inl err, w1)
           | Inr _ \<Rightarrow>
               if truthy_opt (env (js ''R2_PUBLIC_URL''))
               then (Inr (Some (strip_trailing_slash (or_empty (env (js ''R2_PUBLIC_URL''))) @
                                js ''/'' @ key)), w1)
               else (Inr None, w1))"

section \<open>File extraction\<close>

text \<open>\<open>fs.readFileSync\<close> throws when there is no file at the path.\<close>

definition readFileSync :: "world \<Rightarrow> jsstring \<Rightarrow> (error + buffer) \<times> world" where
  "readFileSync w name =
     (let w1 = w\<lparr>trace := trace w @ [ReadFile name]\<rparr> in
      case disk w name of
        None \<Rightarrow> (Inl (Error (js ''ENOENT: no such file or directory'')), w1)
      | Some buffer \<Rightarrow> (Inr buffer, w1))"

text \<open>
  \<^verbatim>\<open>wb.Sheets[wb.SheetNames[0]]\<close>: with no sheet name the index is \<^verbatim>\<open>undefined\<close>,
  the property of that name.
\<close>

definition first_sheet :: "'s workbook \<Rightarrow> 's option" where
  "first_sheet wb =
     Sheets wb (case SheetNames wb of [] \<Rightarrow> js ''undefined'' | n # _ \<Rightarrow> n)"

text \<open>
  \<^verbatim>\<open>
  async function extractFromFile(file) {
    if (!file) return { text: '', inlineImage: null };
    const buffer = fs.readFileSync(file.path);
    const ext = path.extname(file.originalname || '').toLowerCase();
    const mimeType = file.mimetype || mime.lookup(file.originalname) || '';
    if (mimeType.startsWith('image/')) {
      return { text: '', inlineImage: { mimeType, data: buffer.toString('base64') } };
    }
    if (ext === '.pdf') {
      const data = await pdfParse(buffer);
      return { text: truncateText(data.text || ''), inlineImage: null };
    }
    if (ext === '.docx') {
      const result = await mammoth.extractRawText({ buffer });
      return { text: truncateText(result.value || ''), inlineImage: null };
    }
    if (ext === '.csv') {
      const records = parse(buffer, { columns: true, skip_empty_lines: true });
      const preview = JSON.stringify(records.slice(0, 30), null, 2);
      return { text: truncateText(`CSV preview (first rows):\n${preview}`), inlineImage: null };
    }
    if (ext === '.xlsx') {
      const wb = xlsx.read(buffer, { type: 'buffer' });
      const sheet = wb.Sheets[wb.SheetNames[0]];
      const csv = xlsx.utils.sheet_to_csv(sheet);
      return { text: truncateText(`XLSX preview (CSV):\n${csv}`), inlineImage: null };
    }
    const fallback = buffer.toString('utf8');
    return { text: truncateText(fallback), inlineImage: null };
  }
  \<close>
\<close>

definition extractFromFile ::
  "('r, 's) platform \<Rightarrow> world \<Rightarrow> multer_file option \<Rightarrow> (error + extraction) \<times> world" where
  "extractFromFile p w file =
     (case file of
        None \<Rightarrow> (Inr \<lparr>extracted_text = [], inlineImage = None\<rparr>, w)
      | Some f \<Rightarrow>
          (case readFileSync w (path f) of
             (Inl err, w1) \<Rightarrow> (Inl err, w1)
           | (Inr buffer, w1) \<Rightarrow>
               (let ext = toLowerCase p (extname p (originalname f));
                    mimeType = (if truthy (mimetype f) then mimetype f
                                else or_empty (mime_lookup p (originalname f)))
                in if startsWith mimeType (js ''image/'') then
                     Inr \<lparr>extracted_text = [],
                          inlineImage = Some \<lparr>mimeType = mimeType, data = toString_base64 p buffer\<rparr>\<rparr>
                   else if ext = js ''.pdf'' then
                     (case pdfParse p buffer of
                        Inl err \<Rightarrow> Inl err
                      | Inr t \<Rightarrow>
                          Inr \<lparr>extracted_text = truncateText (or_empty t) default_limit,
                               inlineImage = None\<rparr>)
                   else if ext = js ''.docx'' then
                     (case extractRawText p buffer of
                        Inl err \<Rightarrow> Inl err
                      | Inr v \<Rightarrow>
                          Inr \<lparr>extracted_text = truncateText (or_empty v) default_limit,
                               inlineImage = None\<rparr>)
                   else if ext = js ''.csv'' then
                     (case csv_parse p buffer of
                        Inl err \<Rightarrow> Inl err
                      | Inr records \<Rightarrow>
                          Inr \<lparr>extracted_text =
                                 truncateText (js ''CSV preview (first rows):'' @ nl @
                                   JSON_stringify_records p (take 30 records)) default_limit,
                               inlineImage = None\<rparr>)
                   else if ext = js ''.xlsx'' then
                     (case xlsx_read p buffer of
                        Inl err \<Rightarrow> Inl err
                      | Inr wb \<Rightarrow>
                          (case sheet_to_csv p (first_sheet wb) of
                             Inl err \<Rightarrow> Inl err
                           | Inr csv \<Rightarrow>
                               Inr \<lparr>extracted_text =
                                      truncateText (js ''XLSX preview (CSV):'' @ nl @ csv) default_limit,
                                    inlineImage = None\<rparr>))
                   else
                     Inr \<lparr>extracted_text = truncateText (toString_utf8 p buffer) default_limit,
                          inlineImage = None\<rparr>,
                w1)))"

section \<open>Prompt assembly\<close>

text \<open>
  \<^verbatim>\<open>
  function buildSystemPrompt(botId, chartType) {
    if (botId === 'image') { return 'You are an image generation assistant. ...'; }
    if (botId === 'report') { return 'You are a report generation assistant. ...'; }
    if (botId === 'paper') { return 'You are an academic paper analysis assistant. ...'; }
    if (botId === 'data') {
      const chartInstruction = chartType ? `Include output for a ${chartType} chart.`
                                         : 'Include a recommended chart type.';
      return `You are a data analytics assistant. Provide dataset overview, descriptive stats, patterns, and insights. ${chartInstruction}`;
    }
    return 'You are an assistant.';
  }
  \<close>
\<close>

definition buildSystemPrompt :: "jsstring \<Rightarrow> jsstring \<Rightarrow> jsstring" where
  "buildSystemPrompt botId chartType =
     (if botId = js ''image'' then
        js ''You are an image generation assistant. Return a concise caption plus the generated image.''
      else if botId = js ''report'' then
        js ''You are a report generation assistant. Return a structured report with title, executive summary, sections, key findings, and conclusion.''
      else if botId = js ''paper'' then
        js ''You are an academic paper analysis assistant. Return objective, methods, key results, limitations, and future work.''
      else if botId = js ''data'' then
        (let chartInstruction =
               (if truthy chartType then js ''Include output for a '' @ chartType @ js '' chart.''
                else js ''Include a recommended chart type.'')
         in js ''You are a data analytics assistant. Provide dataset overview, descriptive stats, patterns, and insights. '' @
            chartInstruction)
      else js ''You are an assistant.'')"

text \<open>
  The message parts of the bot handler:
  \<^verbatim>\<open>
  const parts = [];
  if (userText) { parts.push({ text: userText }); }
  if (extracted.text) { parts.push({ text: `\n\n[File Content]\n${extracted.text}` }); }
  if (extracted.inlineImage) {
    parts.push({ inline_data: { mime_type: extracted.inlineImage.mimeType,
                                data: extracted.inlineImage.data } });
  }
  if (parts.length === 0) { parts.push({ text: 'No input provided.' }); }
  \<close>
\<close>

definition build_parts :: "jsstring \<Rightarrow> extraction \<Rightarrow> part list" where
  "build_parts userText extracted =
     (let parts0 = (if truthy userText then [TextPart userText] else []);
          parts1 = (if truthy (extracted_text extracted)
                    then parts0 @ [TextPart (nl @ nl @ js ''[File Content]'' @ nl @ extracted_text extracted)]
                    else parts0);
          parts2 = (case inlineImage extracted of
                      None \<Rightarrow> parts1
                    | Some img \<Rightarrow> parts1 @ [InlineData (mimeType img) (data img)])
      in if length parts2 = 0 then parts2 @ [TextPart (js ''No input provided.'')] else parts2)"

section \<open>Session endpoints\<close>

text \<open>
  The callbacks of \<open>find\<close>: \<^verbatim>\<open>u => u.uid === uid && u.password === password\<close> and
  \<^verbatim>\<open>u => u.uid === req.session.uid\<close>. The right-hand sides are strings, so \<^verbatim>\<open>===\<close>
  holds exactly for the same string. Reading \<open>uid\<close> of a \<^verbatim>\<open>null\<close> element throws.
\<close>

definition credentials_match :: "jsstring \<Rightarrow> jsstring \<Rightarrow> json \<Rightarrow> error + bool" where
  "credentials_match x y u =
     (case get_prop u (js ''uid'') of
        Inl err \<Rightarrow> Inl err
      | Inr v \<Rightarrow>
          if v = Some (JStr x) then
            (case get_prop u (js ''password'') of
               Inl err \<Rightarrow> Inl err
             | Inr v' \<Rightarrow> Inr (v' = Some (JStr y)))
          else Inr False)"

definition uid_is :: "jsstring \<Rightarrow> json \<Rightarrow> error + bool" where
  "uid_is x u =
     (case get_prop u (js ''uid'') of
        Inl err \<Rightarrow> Inl err
      | Inr v \<Rightarrow> Inr (v = Some (JStr x)))"

text \<open>
  \<^verbatim>\<open>
  app.post('/api/login', (req, res) => {
    const { uid, password } = req.body;
    if (!uid || !password) {
      return res.status(400).json({ error: 'UID and password required' });
    }
    const data = readUsers();
    const user = data.users.find(u => u.uid === uid && u.password === password);
    if (!user) {
      return res.status(401).json({ error: 'Invalid credentials' });
    }
    req.session.uid = user.uid;
    req.session.nickname = user.nickname || '';
    res.json({ ok: true, needsNickname: !user.nickname });
  });
  \<close>
  A handler returns the response, the session and the world it leaves. What a handler
  throws goes to the error-handling middleware. \<open>user.uid\<close> is the string \<open>uid\<close> of the
  request, to which the callback found it strictly equal.
\<close>

definition api_login ::
  "('r, 's) platform \<Rightarrow> world \<Rightarrow> session \<Rightarrow> login_request \<Rightarrow> response \<times> session \<times> world" where
  "api_login p w s req =
     (if \<not> truthy_opt (body_uid req) \<or> \<not> truthy_opt (body_password req) then
        (\<lparr>status = 400, body = ErrorBody (js ''UID and password required'')\<rparr>, s, w)
      else
        case readUsers p w of
          (Inl err, w1) \<Rightarrow> (error_middleware err, s, w1)
        | (Inr d, w1) \<Rightarrow>
            (case users_find d (credentials_match (or_empty (body_uid req))
                                  (or_empty (body_password req))) of
               Inl err \<Rightarrow> (error_middleware err, s, w1)
             | Inr None \<Rightarrow>
                 (\<lparr>status = 401, body = ErrorBody (js ''Invalid credentials'')\<rparr>, s, w1)
             | Inr (Some u) \<Rightarrow>
                 (case get_prop u (js ''nickname'') of
                    Inl err \<Rightarrow> (error_middleware err, s, w1)
                  | Inr nick \<Rightarrow>
                      (\<lparr>status = 200, body = LoginOk (\<not> json_truthy_opt nick)\<rparr>,
                       s\<lparr>session_uid := Some (or_empty (body_uid req)),
                         session_nickname :=
                           (if json_truthy_opt nick then nick else Some (JStr []))\<rparr>,
                       w1))))"


text \<open>
  \<open>user.nickname = nickname\<close> on the record that \<open>find\<close> returned, which is an element of
  \<open>data.users\<close>: in \<open>data\<close>, the first element of \<open>users\<close> with that uid gets the
  nickname.
\<close>

fun update_first :: "('a \<Rightarrow> bool) \<Rightarrow> ('a \<Rightarrow> 'a) \<Rightarrow> 'a list \<Rightarrow> 'a list" where
  "update_first P f [] = []"
| "update_first P f (x # xs) = (if P x then f x # xs else x # update_first P f xs)"

definition set_nickname :: "jsstring \<Rightarrow> json \<Rightarrow> json" where
  "set_nickname nick u =
     (case u of JObj kvs \<Rightarrow> JObj (set_prop kvs (js ''nickname'') (JStr nick)) | _ \<Rightarrow> u)"

definition with_nickname :: "json \<Rightarrow> jsstring \<Rightarrow> jsstring \<Rightarrow> json" where
  "with_nickname d x nick =
     (case d of
        JObj kvs \<Rightarrow>
          (case map_of kvs (js ''users'') of
             Some (JArr xs) \<Rightarrow>
               JObj (set_prop kvs (js ''users'')
                 (JArr (update_first (\<lambda>u. uid_is x u = Inr True) (set_nickname nick) xs)))
           | _ \<Rightarrow> d)
      | _ \<Rightarrow> d)"

text \<open>
  \<^verbatim>\<open>
  app.post('/api/nickname', (req, res) => {
    if (!req.session.uid) {
      return res.status(401).json({ error: 'Not authenticated' });
    }
    const nickname = (req.body.nickname || '').trim();
    if (!nickname) {
      return res.status(400).json({ error: 'Nickname required' });
    }
    const data = readUsers();
    const user = data.users.find(u => u.uid === req.session.uid);
    if (!user) {
      return res.status(404).json({ error: 'User not found' });
    }
    user.nickname = nickname;
    writeUsers(data);
    req.session.nickname = nickname;
    res.json({ ok: true, nickname });
  });
  \<close>
\<close>

definition api_nickname ::
  "('r, 's) platform \<Rightarrow> world \<Rightarrow> session \<Rightarrow> nickname_request \<Rightarrow> response \<times> session \<times> world" where
  "api_nickname p w s req =
     (if \<not> truthy_opt (session_uid s) then
        (\<lparr>status = 401, body = ErrorBody (js ''Not authenticated'')\<rparr>, s, w)
      else
        let nick = trim (or_empty (body_nickname req)) in
        if \<not> truthy nick then
          (\<lparr>status = 400, body = ErrorBody (js ''Nickname required'')\<rparr>, s, w)
        else
          case readUsers p w of
            (Inl err, w1) \<Rightarrow> (error_middleware err, s, w1)
          | (Inr d, w1) \<Rightarrow>
              (case users_find d (uid_is (or_empty (session_uid s))) of
                 Inl err \<Rightarrow> (error_middleware err, s, w1)
               | Inr None \<Rightarrow>
                   (\<lparr>status = 404, body = ErrorBody (js ''User not found'')\<rparr>, s, w1)
               | Inr (Some u) \<Rightarrow>
                   (\<lparr>status = 200, body = NicknameOk nick\<rparr>,
                    s\<lparr>session_nickname := Some (JStr nick)\<rparr>,
                    writeUsers p w1 (with_nickname d (or_empty (session_uid s)) nick))))"

section \<open>Bot endpoint\<close>

text \<open>
  The reply of the API, normalised:
  \<^verbatim>\<open>
  const partsOut = data?.candidates?.[0]?.content?.parts || [];
  const textParts = partsOut.filter(p => typeof p.text === 'string').map(p => p.text);
  const text = textParts.join('\n\n').trim();
  const imagePart = partsOut.find(p => p.inlineData || p.inline_data);
  const inline = imagePart ? (imagePart.inlineData || imagePart.inline_data) : null;
  const image = inline && inline.data
    ? `data:${inline.mimeType || inline.mime_type};base64,${inline.data}` : null;
  \<close>
\<close>

definition or_inline :: "out_part \<Rightarrow> inline_out option" where
  "or_inline pt = (case out_inlineData pt of Some i \<Rightarrow> Some i | None \<Rightarrow> out_inline_data pt)"

definition reply_text :: "api_data \<Rightarrow> jsstring" where
  "reply_text d =
     (let partsOut = (case candidate_parts d of None \<Rightarrow> [] | Some ps \<Rightarrow> ps);
          textParts = map (\<lambda>pt. or_empty (out_text pt)) (filter (\<lambda>pt. out_text pt \<noteq> None) partsOut)
      in trim (join (nl @ nl) textParts))"

definition reply_image :: "api_data \<Rightarrow> jsstring option" where
  "reply_image d =
     (let partsOut = (case candidate_parts d of None \<Rightarrow> [] | Some ps \<Rightarrow> ps) in
      case find (\<lambda>pt. or_inline pt \<noteq> None) partsOut of
        None \<Rightarrow> None
      | Some imagePart \<Rightarrow>
          (case or_inline imagePart of
             None \<Rightarrow> None
           | Some inline \<Rightarrow>
               if truthy_opt (out_data inline) then
                 Some (js ''data:'' @
                   (if truthy_opt (out_mimeType inline) then or_empty (out_mimeType inline)
                    else case out_mime_type inline of None \<Rightarrow> js ''undefined'' | Some m \<Rightarrow> m) @
                   js '';base64,'' @ or_empty (out_data inline))
               else None))"

text \<open>
  The \<^verbatim>\<open>try\<close> block of the handler, \<open>Inl\<close> when it throws: extraction, object
  upload when there is a file, the call of the generative API, and on an accepted reply
  the removal of the uploaded file.
  \<^verbatim>\<open>
  const userText = (req.body && req.body.text) ? String(req.body.text) : '';
  const chartType = (req.body && req.body.chartType) ? String(req.body.chartType) : '';
  const file = req.file || null;
  const extracted = await extractFromFile(file);
  const fileUrl = file ? await uploadToR2(file) : null;
  const systemPrompt = buildSystemPrompt(botId, chartType);
  ...
  const response = await fetch(
    `https://generativelanguage.googleapis.com/v1beta/models/${model}:generateContent`, {...});
  const data = await response.json();
  if (!response.ok) {
    return res.status(response.status).json({ error: 'Bot request failed', details: data });
  }
  ...
  if (file && fs.existsSync(file.path)) { fs.unlink(file.path, () => {}); }
  res.json({ text, image, fileUrl, raw: data });
  \<close>
\<close>

definition bot_try ::
  "('r, 's) platform \<Rightarrow> env \<Rightarrow> world \<Rightarrow> bot_request \<Rightarrow> multer_file option \<Rightarrow>
   jsstring \<Rightarrow> jsstring \<Rightarrow> (error + response) \<times> world" where
  "bot_try p env w req file model key =
     (let botId = param_botId req;
          userText = (if truthy_opt (body_text req) then or_empty (body_text req) else []);
          chartType = (if truthy_opt (body_chartType req) then or_empty (body_chartType req) else [])
      in case extractFromFile p w file of
           (Inl err, w1) \<Rightarrow> (Inl err, w1)
         | (Inr extracted, w1) \<Rightarrow>
             (case (case file of None \<Rightarrow> (Inr None, w1) | Some f \<Rightarrow> uploadToR2 p env w1 f) of
                (Inl err, w2) \<Rightarrow> (Inl err, w2)
              | (Inr fileUrl, w2) \<Rightarrow>
                  (let systemPrompt = buildSystemPrompt botId chartType;
                       parts = build_parts userText extracted;
                       request =
                         \<lparr>url = js ''https://generativelanguage.googleapis.com/v1beta/models/'' @
                                 model @ js '':generateContent'',
                          x_goog_api_key = key,
                          systemInstruction = systemPrompt,
                          responseModalities =
                            (if botId = js ''image'' then Some [js ''TEXT'', js ''IMAGE''] else None),
                          contents_parts = parts\<rparr>;
                       w3 = w2\<lparr>trace := trace w2 @ [Fetch request]\<rparr>
                   in case fetch p request of
                        Inl err \<Rightarrow> (Inl err, w3)
                      | Inr resp \<Rightarrow>
                          (case response_json resp of
                             Inl err \<Rightarrow> (Inl err, w3)
                           | Inr d \<Rightarrow>
                               if \<not> response_ok resp then
                                 (Inr \<lparr>status = response_status resp,
                                       body = ErrorDetails (js ''Bot request failed'') d\<rparr>, w3)
                               else
                                 (Inr \<lparr>status = 200,
                                       body = BotReply (reply_text d) (reply_image d) fileUrl d\<rparr>,
                                  case file of
                                    None \<Rightarrow> w3
                                  | Some f \<Rightarrow>
                                      if disk w3 (path f) \<noteq> None
                                      then w3\<lparr>disk := (disk w3)(path f := None),
                                              trace := trace w3 @ [Unlink (path f)]\<rparr>
                                      else w3)))))"

text \<open>
  \<^verbatim>\<open>
  app.post('/api/bot/:botId', upload.single('file'), async (req, res) => {
    if (!req.session.uid) {
      return res.status(401).json({ error: 'Not authenticated' });
    }
    const botId = req.params.botId;
    const model = process.env[`BOT_${botId.toUpperCase()}_MODEL`];
    const key = process.env[`BOT_${botId.toUpperCase()}_KEY`];
    if (!model || !key) {
      return res.status(501).json({ error: 'Bot API not configured' });
    }
    try { ... } catch (err) {
      res.status(500).json({ error: 'Bot request failed' });
    }
  });
  \<close>
  \<open>bot_handler\<close> is the handler after the upload layer; \<open>api_bot\<close> is the route: the
  upload layer first, whose error goes to the error-handling middleware.
\<close>

definition bot_model :: "('r, 's) platform \<Rightarrow> env \<Rightarrow> jsstring \<Rightarrow> jsstring option" where
  "bot_model p env botId = env (js ''BOT_'' @ toUpperCase p botId @ js ''_MODEL'')"

definition bot_key :: "('r, 's) platform \<Rightarrow> env \<Rightarrow> jsstring \<Rightarrow> jsstring option" where
  "bot_key p env botId = env (js ''BOT_'' @ toUpperCase p botId @ js ''_KEY'')"

definition bot_handler ::
  "('r, 's) platform \<Rightarrow> env \<Rightarrow> world \<Rightarrow> session \<Rightarrow> bot_request \<Rightarrow> multer_file option \<Rightarrow>
   response \<times> world" where
  "bot_handler p env w s req file =
     (if \<not> truthy_opt (session_uid s) then
        (\<lparr>status = 401, body = ErrorBody (js ''Not authenticated'')\<rparr>, w)
      else
        let model = bot_model p env (param_botId req);
            key = bot_key p env (param_botId req)
        in if \<not> truthy_opt model \<or> \<not> truthy_opt key then
             (\<lparr>status = 501, body = ErrorBody (js ''Bot API not configured'')\<rparr>, w)
           else
             case bot_try p env w req file (or_empty model) (or_empty key) of
               (Inl err, w1) \<Rightarrow> (\<lparr>status = 500, body = ErrorBody (js ''Bot request failed'')\<rparr>, w1)
             | (Inr r, w1) \<Rightarrow> (r, w1))"

definition api_bot ::
  "('r, 's) platform \<Rightarrow> env \<Rightarrow> world \<Rightarrow> session \<Rightarrow> bot_request \<Rightarrow> response \<times> world" where
  "api_bot p env w s req =
     (case upload_single p w (upload req) of
        (Inl err, w1) \<Rightarrow> (error_middleware err, w1)
      | (Inr file, w1) \<Rightarrow> bot_handler p env w1 s req file)"

section \<open>A platform to evaluate on\<close>

text \<open>
  A small instance of the platform, on which the model is run at concrete requests: ASCII
  case mapping, the extension from the first dot, bytes read as code units, a workbook of
  two sheets (a sheet is its CSV text), a \<open>JSON.parse\<close> that knows the text \<open>users\<close> as
  the store of one user \<open>a\<close> with password \<open>right\<close> and no nickname and the text \<open>{}\<close>
  as the empty object and rejects every other text, an object store that accepts every
  object and a generative API that is unreachable.
\<close>

definition demo_store :: json where
  "demo_store =
     JObj [(js ''users'', JArr [JObj [(js ''uid'', JStr (js ''a'')),
                                      (js ''password'', JStr (js ''right''))]])]"

definition demo_platform :: "(unit, jsstring) platform" where
  "demo_platform =
     \<lparr>toUpperCase = map (\<lambda>c. if 97 \<le> c \<and> c \<le> 122 then c - 32 else c),
      toLowerCase = map (\<lambda>c. if 65 \<le> c \<and> c \<le> 90 then c + 32 else c),
      extname = dropWhile (\<lambda>c. c \<noteq> 46),
      mime_lookup = (\<lambda>n. None),
      toString_base64 = map ucast,
      toString_utf8 = map ucast,
      pdfParse = (\<lambda>b. Inr (Some (map ucast b))),
      extractRawText = (\<lambda>b. Inr (Some (map ucast b))),
      csv_parse = (\<lambda>b. Inr (replicate (length b) ())),
      JSON_stringify_records = (\<lambda>rs. number_to_string (length rs)),
      xlsx_read = (\<lambda>b. Inr \<lparr>SheetNames = [js ''Data'', js ''Notes''],
                            Sheets = [js ''Notes'' \<mapsto> js ''n,o'', js ''Data'' \<mapsto> js ''a,b'']\<rparr>),
      sheet_to_csv = (\<lambda>sh. case sh of None \<Rightarrow> Inl (Error (js ''no sheet'')) | Some c \<Rightarrow> Inr c),
      JSON_parse_text = (\<lambda>raw. if raw = js ''users'' then Some demo_store
                               else if raw = js ''{}'' then Some (JObj []) else None),
      JSON_stringify = (\<lambda>d. js ''{}''),
      s3_send = (\<lambda>c. Inr ()),
      fetch = (\<lambda>r. Inl (Error (js ''fetch failed''))),
      date_now = 0,
      randomBytes_hex = (\<lambda>n. js ''c0ffee''),
      dirname = js ''/srv''\<rparr>"

definition no_env :: env where
  "no_env = (\<lambda>name. None)"

definition empty_world :: world where
  "empty_world = \<lparr>users_json = None, disk = (\<lambda>name. None), trace = []\<rparr>"

definition signed_in :: session where
  "signed_in = \<lparr>session_uid = Some (js ''a''), session_nickname = Some (JStr [])\<rparr>"

definition signed_out :: session where
  "signed_out = \<lparr>session_uid = None, session_nickname = None\<rparr>"

text \<open>A world with one uploaded file, and \<^verbatim>\<open>req.file\<close> for it.\<close>

definition stored_world :: "buffer \<Rightarrow> world" where
  "stored_world b = \<lparr>users_json = None, disk = [js ''/srv/uploads/f'' \<mapsto> b], trace = []\<rparr>"

definition file_named :: "jsstring \<Rightarrow> jsstring \<Rightarrow> multer_file" where
  "file_named name mime = \<lparr>originalname = name, mimetype = mime, path = js ''/srv/uploads/f''\<rparr>"

text \<open>
  A request that uploads an audio file, and worlds whose credential file holds the text
  \<open>users\<close>, holds the text \<open>{}\<close>, holds a text that is not JSON, and is a directory.
\<close>

definition audio_request :: bot_request where
  "audio_request =
     \<lparr>param_botId = js ''data'', body_text = None, body_chartType = None,
      upload = Some \<lparr>part_filename = js ''a.mp3'', part_mimetype = js ''audio/mpeg'',
                     part_content = [1]\<rparr>\<rparr>"

definition users_world :: world where
  "users_world = \<lparr>users_json = Some (Inr (js ''users'')), disk = (\<lambda>name. None), trace = []\<rparr>"

definition braces_world :: world where
  "braces_world = \<lparr>users_json = Some (Inr (js ''{}'')), disk = (\<lambda>name. None), trace = []\<rparr>"

definition broken_world :: world where
  "broken_world = \<lparr>users_json = Some (Inr (js ''{oops'')), disk = (\<lambda>name. None), trace = []\<rparr>"

definition directory_world :: world where
  "directory_world =
     \<lparr>users_json = Some (Inl (Error (js ''EISDIR: illegal operation on a directory, read''))),
      disk = (\<lambda>name. None), trace = []\<rparr>"

definition login_a_wrong :: login_request where
  "login_a_wrong = \<lparr>body_uid = Some (js ''a''), body_password = Some (js ''wrong'')\<rparr>"

definition login_a_right :: login_request where
  "login_a_right = \<lparr>body_uid = Some (js ''a''), body_password = Some (js ''right'')\<rparr>"

text \<open>
  Environments with the object store and with the \<open>data\<close> bot configured, and requests
  to the \<open>data\<close> bot with no file and with a PDF file.
\<close>

definition r2_env :: env where
  "r2_env = [js ''R2_ENDPOINT'' \<mapsto> js ''https://r2.example'', js ''R2_ACCESS_KEY_ID'' \<mapsto> js ''id'',
             js ''R2_SECRET_ACCESS_KEY'' \<mapsto> js ''secret'', js ''R2_BUCKET'' \<mapsto> js ''b'']"

definition r2_public_env :: env where
  "r2_public_env = r2_env(js ''R2_PUBLIC_URL'' \<mapsto> js ''https://cdn.example/'')"

definition data_env :: env where
  "data_env = [js ''BOT_DATA_MODEL'' \<mapsto> js ''m'', js ''BOT_DATA_KEY'' \<mapsto> js ''k'']"






section \<open>The store as the login sees it\<close>

text \<open>
  The elements of \<open>data.users\<close> when the store is read as an object whose \<open>users\<close> is an
  array (no elements otherwise); a record with a given uid and password; and a store that
  \<open>find\<close> can scan to its end: such an object, with no \<^verbatim>\<open>null\<close> among the elements.
\<close>

definition stored_users :: "('r, 's) platform \<Rightarrow> world \<Rightarrow> json list" where
  "stored_users p w =
     (case fst (readUsers p w) of
        Inr (JObj kvs) \<Rightarrow> (case map_of kvs (js ''users'') of Some (JArr xs) \<Rightarrow> xs | _ \<Rightarrow> [])
      | _ \<Rightarrow> [])"


definition has_credentials :: "jsstring \<Rightarrow> jsstring \<Rightarrow> json \<Rightarrow> bool" where
  "has_credentials x y u =
     (get_prop u (js ''uid'') = Inr (Some (JStr x)) \<and>
      get_prop u (js ''password'') = Inr (Some (JStr y)))"

definition store_scannable :: "('r, 's) platform \<Rightarrow> world \<Rightarrow> bool" where
  "store_scannable p w =
     (case fst (readUsers p w) of
        Inr (JObj kvs) \<Rightarrow>
          (case map_of kvs (js ''users'') of Some (JArr xs) \<Rightarrow> JNull \<notin> set xs | _ \<Rightarrow> False)
      | _ \<Rightarrow> False)"

section \<open>Decimal numerals\<close>

declare number_to_string.simps [simp del]

lemma digit_value_digit: "d < 10 \<Longrightarrow> digit_value (48 + of_nat d) = Some d"
  unfolding digit_value_def
  by (simp add: unat_word_ariths unat_of_nat take_bit_nat_eq_self)

lemma decimal_from_append:
  "decimal_from acc (xs @ ys) =
     (case decimal_from acc xs of None \<Rightarrow> None | Some a \<Rightarrow> decimal_from a ys)"
  by (induction xs arbitrary: acc) (auto split: option.splits)

lemma decimal_from_number: "decimal_from 0 (number_to_string n) = Some n"
proof (induction n rule: number_to_string.induct)
  case (1 n)
  show ?case
  proof (cases "n < 10")
    case True
    then show ?thesis by (subst number_to_string.simps) (simp add: digit_value_digit)
  next
    case False
    with 1 have "decimal_from 0 (number_to_string (n div 10)) = Some (n div 10)" by simp
    with False show ?thesis
      by (subst number_to_string.simps) (simp add: decimal_from_append digit_value_digit)
  qed
qed

lemma number_to_string_nonempty: "number_to_string n \<noteq> []"
  by (subst number_to_string.simps) simp

lemma decimal_value_number: "decimal_value (number_to_string n) = Some n"
  by (simp add: decimal_value_def number_to_string_nonempty decimal_from_number)

section \<open>Truncation\<close>

text \<open>
  C1. A text of more than 12,000 code units is cut to its first 12,000, followed by the
  marker \<^verbatim>\<open>\n\n[Truncated N chars]\<close>; the result is 12,000 plus the length of the marker
  long, and the \<open>N\<close> of the marker is the decimal numeral of the number of code units left
  out, the length of the text minus 12,000. A text of at most 12,000 code units is returned
  as it is.
\<close>

theorem truncateText_spec:
  "(default_limit < length text \<longrightarrow>
      truncateText text default_limit =
        take 12000 text @ nl @ nl @ js ''[Truncated '' @
          number_to_string (length text - 12000) @ js '' chars]''
      \<and> length (truncateText text default_limit) =
        12000 + length (nl @ nl @ js ''[Truncated '' @
          number_to_string (length text - 12000) @ js '' chars]'')
      \<and> decimal_value (number_to_string (length text - 12000)) = Some (length text - 12000))
   \<and> (length text \<le> default_limit \<longrightarrow> truncateText text default_limit = text)"
  by (auto simp: truncateText_def default_limit_def truthy_def decimal_value_number)

theorem truncateText_spec_witness:
  "default_limit < length (replicate 12005 (97::jschar))
   \<and> truncateText (replicate 12005 97) default_limit =
       replicate 12000 97 @ nl @ nl @ js ''[Truncated 5 chars]''
   \<and> length (truncateText (replicate 12005 97) default_limit) = 12021
   \<and> length (js ''abc'') \<le> default_limit
   \<and> truncateText (js ''abc'') default_limit = js ''abc''"
  using truncateText_spec [of "replicate 12005 97"] truncateText_spec [of "js ''abc''"]
  by (simp add: default_limit_def js_def nl_def number_to_string.simps)

section \<open>Extraction dispatch\<close>

lemmas demo_defs = demo_platform_def stored_world_def file_named_def js_def nl_def
  default_limit_def truncateText_def truthy_def truthy_opt_def or_empty_def startsWith_def
  first_sheet_def number_to_string.simps

text \<open>
  C2. For an uploaded file that is on disk, extraction goes by priority. A MIME type (the
  declared one, else the one looked up from the name) that starts with \<open>image/\<close> gives the
  bytes in base64 as the inline image and an empty text, whatever the extension. Otherwise
  the lower-cased extension decides: \<open>.pdf\<close> gives the text of the PDF extractor,
  \<open>.docx\<close> the raw text of the document, \<open>.csv\<close> the preview of at most the first 30
  parsed records, \<open>.xlsx\<close> the sheet named first in the workbook as CSV, anything else the bytes decoded as
  UTF-8. Every result that is not an image has no inline image and a text that went
  through the truncation at 12,000.
\<close>

theorem extractFromFile_dispatch:
  assumes "disk w (path f) = Some buffer"
  shows
   "(let mime = (if truthy (mimetype f) then mimetype f else or_empty (mime_lookup p (originalname f)));
         ext = toLowerCase p (extname p (originalname f));
         r = fst (extractFromFile p w (Some f))
     in (startsWith mime (js ''image/'') \<longrightarrow>
           r = Inr \<lparr>extracted_text = [],
                    inlineImage = Some \<lparr>mimeType = mime, data = toString_base64 p buffer\<rparr>\<rparr>)
      \<and> (\<not> startsWith mime (js ''image/'') \<longrightarrow>
           (\<forall>t. ext = js ''.pdf'' \<and> pdfParse p buffer = Inr t \<longrightarrow>
                r = Inr \<lparr>extracted_text = truncateText (or_empty t) default_limit, inlineImage = None\<rparr>)
         \<and> (\<forall>v. ext = js ''.docx'' \<and> extractRawText p buffer = Inr v \<longrightarrow>
                r = Inr \<lparr>extracted_text = truncateText (or_empty v) default_limit, inlineImage = None\<rparr>)
         \<and> (\<forall>records. ext = js ''.csv'' \<and> csv_parse p buffer = Inr records \<longrightarrow>
                r = Inr \<lparr>extracted_text =
                           truncateText (js ''CSV preview (first rows):'' @ nl @
                             JSON_stringify_records p (take 30 records)) default_limit,
                         inlineImage = None\<rparr>
                \<and> length (take 30 records) \<le> 30)
         \<and> (\<forall>wb name names csv. ext = js ''.xlsx'' \<and> xlsx_read p buffer = Inr wb \<and>
                  SheetNames wb = name # names \<and> sheet_to_csv p (Sheets wb name) = Inr csv \<longrightarrow>
                r = Inr \<lparr>extracted_text = truncateText (js ''XLSX preview (CSV):'' @ nl @ csv) default_limit,
                         inlineImage = None\<rparr>)
         \<and> (ext \<noteq> js ''.pdf'' \<and> ext \<noteq> js ''.docx'' \<and> ext \<noteq> js ''.csv'' \<and> ext \<noteq> js ''.xlsx'' \<longrightarrow>
                r = Inr \<lparr>extracted_text = truncateText (toString_utf8 p buffer) default_limit,
                         inlineImage = None\<rparr>)
         \<and> (\<forall>x. r = Inr x \<longrightarrow>
                inlineImage x = None \<and> (\<exists>raw. extracted_text x = truncateText raw default_limit))))"
proof -
  have neq: "js ''.pdf'' \<noteq> js ''.docx''" "js ''.pdf'' \<noteq> js ''.csv''" "js ''.pdf'' \<noteq> js ''.xlsx''"
    "js ''.docx'' \<noteq> js ''.csv''" "js ''.docx'' \<noteq> js ''.xlsx''" "js ''.csv'' \<noteq> js ''.xlsx''"
    by (simp_all add: js_def)
  show ?thesis
    using assms neq
    by (auto simp: extractFromFile_def readFileSync_def first_sheet_def Let_def split: sum.splits)
qed

theorem extractFromFile_dispatch_witness:
  "disk (stored_world [104, 105]) (path (file_named (js ''photo.pdf'') (js ''image/png''))) = Some [104, 105]
   \<and> fst (extractFromFile demo_platform (stored_world [104, 105])
         (Some (file_named (js ''photo.pdf'') (js ''image/png'')))) =
       Inr \<lparr>extracted_text = [], inlineImage = Some \<lparr>mimeType = js ''image/png'', data = js ''hi''\<rparr>\<rparr>
   \<and> fst (extractFromFile demo_platform (stored_world [104, 105])
         (Some (file_named (js ''a.PDF'') (js ''application/pdf'')))) =
       Inr \<lparr>extracted_text = js ''hi'', inlineImage = None\<rparr>
   \<and> fst (extractFromFile demo_platform (stored_world [104, 105])
         (Some (file_named (js ''a.docx'') (js ''application/octet-stream'')))) =
       Inr \<lparr>extracted_text = js ''hi'', inlineImage = None\<rparr>
   \<and> fst (extractFromFile demo_platform (stored_world (replicate 31 0))
         (Some (file_named (js ''a.csv'') (js ''text/csv'')))) =
       Inr \<lparr>extracted_text = js ''CSV preview (first rows):'' @ nl @ js ''30'', inlineImage = None\<rparr>
   \<and> fst (extractFromFile demo_platform (stored_world [104, 105])
         (Some (file_named (js ''a.xlsx'') []))) =
       Inr \<lparr>extracted_text = js ''XLSX preview (CSV):'' @ nl @ js ''a,b'', inlineImage = None\<rparr>
   \<and> fst (extractFromFile demo_platform (stored_world [104, 105])
         (Some (file_named (js ''a.txt'') (js ''text/plain'')))) =
       Inr \<lparr>extracted_text = js ''hi'', inlineImage = None\<rparr>"
  using
    extractFromFile_dispatch [of "stored_world [104, 105]" "file_named (js ''photo.pdf'') (js ''image/png'')" "[104, 105]" demo_platform]
    extractFromFile_dispatch [of "stored_world [104, 105]" "file_named (js ''a.PDF'') (js ''application/pdf'')" "[104, 105]" demo_platform]
    extractFromFile_dispatch [of "stored_world [104, 105]" "file_named (js ''a.docx'') (js ''application/octet-stream'')" "[104, 105]" demo_platform]
    extractFromFile_dispatch [of "stored_world (replicate 31 0)" "file_named (js ''a.csv'') (js ''text/csv'')" "replicate 31 0" demo_platform]
    extractFromFile_dispatch [of "stored_world [104, 105]" "file_named (js ''a.xlsx'') []" "[104, 105]" demo_platform]
    extractFromFile_dispatch [of "stored_world [104, 105]" "file_named (js ''a.txt'') (js ''text/plain'')" "[104, 105]" demo_platform]
  by (simp add: demo_defs extractFromFile_def readFileSync_def Let_def)

section \<open>Configuration gate of the bot endpoint\<close>

text \<open>
  The route runs the upload layer before the handler, so an authenticated request to a bot
  with no model and no key that uploads an audio file is answered 400 by the error-handling
  middleware, not 501.
\<close>

theorem bot_unconfigured_counterexample:
  "truthy_opt (session_uid signed_in)
   \<and> \<not> truthy_opt (bot_model demo_platform no_env (param_botId audio_request))
   \<and> fst (api_bot demo_platform no_env empty_world signed_in audio_request) =
       \<lparr>status = 400, body = ErrorBody (js ''Audio/video files are not supported.'')\<rparr>"
  by (simp add: demo_defs signed_in_def audio_request_def bot_model_def no_env_def api_bot_def
      upload_single_def fileFilter_def error_middleware_def empty_world_def)

text \<open>
  C3, as the code has it. For an authenticated request to a bot whose model identifier or
  API key is not configured (absent or empty): when the upload layer accepts the request
  (no file, or a file that the filter and the size limit let through) the endpoint answers
  501 with the error body \<open>Bot API not configured\<close>; when the upload layer refuses the
  file it answers 400 with the message of the refusal. In both cases the log of store
  accesses, file reads and network calls is as before: neither the object store nor the
  generative API is called.
\<close>

theorem bot_unconfigured:
  assumes "truthy_opt (session_uid s)"
      and "\<not> truthy_opt (bot_model p env (param_botId req)) \<or>
           \<not> truthy_opt (bot_key p env (param_botId req))"
  shows "(case fst (upload_single p w (upload req)) of
            Inl err \<Rightarrow> fst (api_bot p env w s req) = error_middleware err \<and>
                       status (fst (api_bot p env w s req)) = 400
          | Inr file \<Rightarrow> fst (api_bot p env w s req) =
                          \<lparr>status = 501, body = ErrorBody (js ''Bot API not configured'')\<rparr>)
         \<and> trace (snd (api_bot p env w s req)) = trace w"
  using assms
  by (auto simp: api_bot_def bot_handler_def upload_single_def error_middleware_def Let_def
      split: sum.splits option.splits prod.splits)

theorem bot_unconfigured_witness:
  "truthy_opt (session_uid signed_in)
   \<and> \<not> truthy_opt (bot_model demo_platform no_env (param_botId (audio_request\<lparr>upload := None\<rparr>)))
   \<and> fst (api_bot demo_platform no_env empty_world signed_in (audio_request\<lparr>upload := None\<rparr>)) =
       \<lparr>status = 501, body = ErrorBody (js ''Bot API not configured'')\<rparr>
   \<and> trace (snd (api_bot demo_platform no_env empty_world signed_in (audio_request\<lparr>upload := None\<rparr>))) = []"
  using bot_unconfigured [of signed_in demo_platform no_env "audio_request\<lparr>upload := None\<rparr>" empty_world]
  by (simp add: signed_in_def audio_request_def bot_model_def no_env_def
      upload_single_def empty_world_def truthy_opt_def truthy_def js_def)

section \<open>Scanning the store\<close>

text \<open>
  On a list with no \<^verbatim>\<open>null\<close> the callbacks do not throw, and \<open>find\<close> is the search
  for the first record with the credentials, or with the uid. A \<^verbatim>\<open>null\<close> in a list with
  no matching record is reached, and reading its \<open>uid\<close> throws.
\<close>

lemma credentials_match_not_null:
  "u \<noteq> JNull \<Longrightarrow> credentials_match x y u = Inr (has_credentials x y u)"
  by (cases u) (auto simp: credentials_match_def has_credentials_def)


lemma array_find_credentials:
  "JNull \<notin> set xs \<Longrightarrow>
   array_find (credentials_match x y) xs = Inr (find (has_credentials x y) xs)"
  by (induction xs) (auto simp: credentials_match_not_null)


lemma array_find_null_throws:
  "JNull \<in> set xs \<Longrightarrow> \<forall>u \<in> set xs. \<not> has_credentials x y u \<Longrightarrow>
   \<exists>err. array_find (credentials_match x y) xs = Inl err"
proof (induction xs)
  case Nil
  then show ?case by simp
next
  case (Cons u us)
  show ?case
  proof (cases "u = JNull")
    case True
    then show ?thesis by (simp add: credentials_match_def)
  next
    case False
    with Cons show ?thesis by (auto simp: credentials_match_not_null)
  qed
qed

text \<open>
  The record that the login finds has the uid of the request as its \<open>uid\<close>: this is
  the string that the login stores in the session.
\<close>

lemma found_user_uid:
  "array_find (credentials_match x y) xs = Inr (Some u) \<Longrightarrow>
   get_prop u (js ''uid'') = Inr (Some (JStr x))"
proof (induction xs)
  case Nil
  then show ?case by simp
next
  case (Cons v vs)
  then show ?case
    by (auto simp: credentials_match_def split: sum.splits if_splits bool.splits)
qed


lemma error_middleware_status: "status (error_middleware err) = 400"
  by (simp add: error_middleware_def)

section \<open>Login\<close>

text \<open>
  The code returns from \<open>readUsers\<close> whatever \<open>JSON.parse\<close> yields. When the
  credential file holds \<^verbatim>\<open>{}\<close> there is no user record at all, \<open>data.users\<close> is
  undefined, the call of \<open>find\<close> throws, and the error-handling middleware answers 400.
\<close>

theorem login_invalid_credentials_counterexample:
  "body_uid login_a_wrong = Some (js ''a'') \<and> body_password login_a_wrong = Some (js ''wrong'')
   \<and> fst (readUsers demo_platform braces_world) = Inr (JObj [])
   \<and> stored_users demo_platform braces_world = []
   \<and> status (fst (api_login demo_platform braces_world signed_out login_a_wrong)) = 400"
proof -
  have r: "readUsers demo_platform braces_world =
      (Inr (JObj []), braces_world\<lparr>trace := trace braces_world @ [ReadUsers]\<rparr>)"
    by (simp add: readUsers_def braces_world_def JSON_parse_def demo_platform_def truthy_def js_def)
  show ?thesis
    by (simp add: r stored_users_def api_login_def login_a_wrong_def users_find_def
        error_middleware_status truthy_opt_def truthy_def)
qed

text \<open>
  C4, as the code has it. A login with a non-empty uid and a non-empty password, such that
  no user record of the store has both that uid and that password, is never answered 200
  and leaves the session as it was, whatever other records there are. It is answered 401
  with the error \<open>Invalid credentials\<close> when the store can be scanned: the file is
  missing or not JSON, or it holds an object whose \<open>users\<close> is an array with no
  \<^verbatim>\<open>null\<close> in it. Otherwise (the file cannot be read, or it holds JSON of another
  shape) the handler throws and the answer is 400.
\<close>

theorem login_invalid_credentials:
  assumes "body_uid req = Some x" and "x \<noteq> []"
      and "body_password req = Some y" and "y \<noteq> []"
      and "\<forall>u \<in> set (stored_users p w). \<not> has_credentials x y u"
  shows "status (fst (api_login p w s req)) \<noteq> 200
       \<and> fst (snd (api_login p w s req)) = s
       \<and> (store_scannable p w \<longrightarrow>
            fst (api_login p w s req) =
              \<lparr>status = 401, body = ErrorBody (js ''Invalid credentials'')\<rparr>)
       \<and> (\<not> store_scannable p w \<longrightarrow> status (fst (api_login p w s req)) = 400)"
proof -
  obtain r w1 where r: "readUsers p w = (r, w1)"
    by (cases "readUsers p w")
  have t: "truthy_opt (body_uid req)" "truthy_opt (body_password req)"
    "or_empty (body_uid req) = x" "or_empty (body_password req) = y"
    using assms(1-4) by (simp_all add: truthy_opt_def truthy_def or_empty_def)
  show ?thesis
  proof (cases r)
    case (Inl err)
    with r t show ?thesis
      by (simp add: api_login_def store_scannable_def error_middleware_status)
  next
    case (Inr d)
    show ?thesis
    proof (cases "\<exists>kvs xs. d = JObj kvs \<and> map_of kvs (js ''users'') = Some (JArr xs)")
      case True
      then obtain kvs xs where d: "d = JObj kvs" "map_of kvs (js ''users'') = Some (JArr xs)"
        by blast
      have xs: "stored_users p w = xs"
        using r Inr d by (simp add: stored_users_def)
      have uf: "users_find d (credentials_match x y) = array_find (credentials_match x y) xs"
        using d by (simp add: users_find_def)
      show ?thesis
      proof (cases "JNull \<in> set xs")
        case True
        with assms(5) xs obtain err where "array_find (credentials_match x y) xs = Inl err"
          using array_find_null_throws by blast
        with r Inr d t uf True show ?thesis
          by (simp add: api_login_def store_scannable_def error_middleware_status)
      next
        case False
        have "find (has_credentials x y) xs = None"
          using assms(5) xs by (simp add: find_None_iff)
        with False have "array_find (credentials_match x y) xs = Inr None"
          by (simp add: array_find_credentials)
        with r Inr d t uf False show ?thesis
          by (simp add: api_login_def store_scannable_def)
      qed
    next
      case False
      then have "\<exists>err. users_find d (credentials_match x y) = Inl err"
        by (cases d) (auto simp: users_find_def split: json.splits option.splits)
      then obtain err where e: "users_find d (credentials_match x y) = Inl err" ..
      have "\<not> store_scannable p w"
        using False r Inr by (auto simp: store_scannable_def split: json.splits option.splits)
      with r Inr t e show ?thesis
        by (simp add: api_login_def error_middleware_status)
    qed
  qed
qed

lemma users_world_read:
  "readUsers demo_platform users_world =
     (Inr demo_store, users_world\<lparr>trace := trace users_world @ [ReadUsers]\<rparr>)"
  by (simp add: readUsers_def users_world_def JSON_parse_def demo_platform_def truthy_def js_def)

lemma users_world_store:
  "stored_users demo_platform users_world =
     [JObj [(js ''uid'', JStr (js ''a'')), (js ''password'', JStr (js ''right''))]]"
  "store_scannable demo_platform users_world"
  by (simp_all add: stored_users_def store_scannable_def users_world_read demo_store_def)

lemma js_neq_Nil: "js (c # cs) \<noteq> []"
  by (simp add: js_def)

theorem login_invalid_credentials_witness:
  "body_uid login_a_wrong = Some (js ''a'') \<and> js ''a'' \<noteq> []
   \<and> body_password login_a_wrong = Some (js ''wrong'') \<and> js ''wrong'' \<noteq> []
   \<and> stored_users demo_platform users_world =
       [JObj [(js ''uid'', JStr (js ''a'')), (js ''password'', JStr (js ''right''))]]
   \<and> store_scannable demo_platform users_world
   \<and> fst (api_login demo_platform users_world signed_out login_a_wrong) =
       \<lparr>status = 401, body = ErrorBody (js ''Invalid credentials'')\<rparr>
   \<and> fst (snd (api_login demo_platform users_world signed_out login_a_wrong)) = signed_out"
proof -
  have a: "body_uid login_a_wrong = Some (js ''a'')" "body_password login_a_wrong = Some (js ''wrong'')"
    by (simp_all add: login_a_wrong_def)
  have n: "\<forall>u \<in> set (stored_users demo_platform users_world).
             \<not> has_credentials (js ''a'') (js ''wrong'') u"
    by (simp add: users_world_store has_credentials_def) (simp add: js_def)
  show ?thesis
    using login_invalid_credentials [OF a(1) js_neq_Nil a(2) js_neq_Nil n, of signed_out]
    by (simp add: a users_world_store js_neq_Nil)
qed

section \<open>Nickname update\<close>

text \<open>
  C5. A nickname update on a session with no user id (absent or empty) is answered 401
  and returns before the credential store is touched: the session and the world are
  unchanged, so no read or write of the store is logged and the credential file is as it
  was.
\<close>

theorem nickname_unauthenticated:
  assumes "\<not> truthy_opt (session_uid s)"
  shows "api_nickname p w s req =
           (\<lparr>status = 401, body = ErrorBody (js ''Not authenticated'')\<rparr>, s, w)
         \<and> trace (snd (snd (api_nickname p w s req))) = trace w
         \<and> users_json (snd (snd (api_nickname p w s req))) = users_json w"
  using assms by (simp add: api_nickname_def)

theorem nickname_unauthenticated_witness:
  "\<not> truthy_opt (session_uid signed_out)
   \<and> api_nickname demo_platform users_world signed_out \<lparr>body_nickname = Some (js ''Neo'')\<rparr> =
       (\<lparr>status = 401, body = ErrorBody (js ''Not authenticated'')\<rparr>, signed_out, users_world)"
  using nickname_unauthenticated [of signed_out demo_platform users_world "\<lparr>body_nickname = Some (js ''Neo'')\<rparr>"]
  by (simp add: signed_out_def truthy_opt_def)

lemma trim_Neo: "trim (js ''  Neo '') = js ''Neo''"
  by (simp add: trim_def js_def isWhiteSpace_def)



section \<open>Object upload: configuration and result\<close>

text \<open>
  C8. Unless the endpoint, the access key, the secret key and the bucket are all set (and
  not empty), the upload returns null and leaves the world as it was: nothing is sent.
  When all four are set, exactly one object is sent, for the configured bucket and with the
  stored file as its body; a failed send is the error of the upload, and after a successful
  send the result is the public URL (the public base without one trailing slash, a slash,
  the object key) when a public base URL is configured and null when it is not. So a URL
  is returned only if the public base URL is configured.
\<close>

theorem uploadToR2_spec:
  "(\<not> (truthy_opt (env (js ''R2_ENDPOINT'')) \<and> truthy_opt (env (js ''R2_ACCESS_KEY_ID'')) \<and>
        truthy_opt (env (js ''R2_SECRET_ACCESS_KEY'')) \<and> truthy_opt (env (js ''R2_BUCKET''))) \<longrightarrow>
      uploadToR2 p env w file = (Inr None, w))
   \<and> (truthy_opt (env (js ''R2_ENDPOINT'')) \<and> truthy_opt (env (js ''R2_ACCESS_KEY_ID'')) \<and>
       truthy_opt (env (js ''R2_SECRET_ACCESS_KEY'')) \<and> truthy_opt (env (js ''R2_BUCKET'')) \<longrightarrow>
        (\<exists>c. trace (snd (uploadToR2 p env w file)) = trace w @ [S3Send c]
           \<and> Bucket c = env (js ''R2_BUCKET'') \<and> Body c = path file
           \<and> (case s3_send p c of
                 Inl err \<Rightarrow> fst (uploadToR2 p env w file) = Inl err
               | Inr u \<Rightarrow>
                   fst (uploadToR2 p env w file) =
                     Inr (if truthy_opt (env (js ''R2_PUBLIC_URL''))
                          then Some (strip_trailing_slash (or_empty (env (js ''R2_PUBLIC_URL''))) @
                                     js ''/'' @ Key c)
                          else None))))
   \<and> (\<forall>u. fst (uploadToR2 p env w file) = Inr (Some u) \<longrightarrow> truthy_opt (env (js ''R2_PUBLIC_URL'')))"
  by (auto simp: uploadToR2_def r2Enabled_def Let_def split: sum.splits)

lemma r2_env_values:
  "r2_env (js ''R2_ENDPOINT'') = Some (js ''https://r2.example'')"
  "r2_env (js ''R2_ACCESS_KEY_ID'') = Some (js ''id'')"
  "r2_env (js ''R2_SECRET_ACCESS_KEY'') = Some (js ''secret'')"
  "r2_env (js ''R2_BUCKET'') = Some (js ''b'')"
  "r2_env (js ''R2_PUBLIC_URL'') = None"
  by (simp_all add: r2_env_def js_def)

lemma r2_public_env_values:
  "r2_public_env (js ''R2_ENDPOINT'') = Some (js ''https://r2.example'')"
  "r2_public_env (js ''R2_ACCESS_KEY_ID'') = Some (js ''id'')"
  "r2_public_env (js ''R2_SECRET_ACCESS_KEY'') = Some (js ''secret'')"
  "r2_public_env (js ''R2_BUCKET'') = Some (js ''b'')"
  "r2_public_env (js ''R2_PUBLIC_URL'') = Some (js ''https://cdn.example/'')"
  by (simp_all add: r2_public_env_def r2_env_def js_def)

lemma js_nonempty: "js (c # cs) \<noteq> []"
  by (simp add: js_def)

lemma strip_cdn: "strip_trailing_slash (js ''https://cdn.example/'') = js ''https://cdn.example''"
  by (simp add: strip_trailing_slash_def js_def)

theorem uploadToR2_spec_witness:
  "\<not> truthy_opt (no_env (js ''R2_ENDPOINT''))
   \<and> uploadToR2 demo_platform no_env empty_world (file_named (js ''a.pdf'') (js ''application/pdf'')) =
       (Inr None, empty_world)
   \<and> truthy_opt (r2_env (js ''R2_ENDPOINT'')) \<and> truthy_opt (r2_env (js ''R2_ACCESS_KEY_ID''))
   \<and> truthy_opt (r2_env (js ''R2_SECRET_ACCESS_KEY'')) \<and> truthy_opt (r2_env (js ''R2_BUCKET''))
   \<and> fst (uploadToR2 demo_platform r2_env empty_world (file_named (js ''a.pdf'') (js ''application/pdf''))) =
       Inr None
   \<and> length (trace (snd (uploadToR2 demo_platform r2_env empty_world
         (file_named (js ''a.pdf'') (js ''application/pdf''))))) = 1
   \<and> fst (uploadToR2 demo_platform r2_public_env
         empty_world (file_named (js ''a.pdf'') (js ''application/pdf''))) =
       Inr (Some (js ''https://cdn.example'' @ js ''/'' @ js ''uploads/'' @ js ''0'' @ js ''-'' @
                  js ''c0ffee'' @ js ''-'' @ js ''a.pdf''))"
proof -
  have s3: "s3_send demo_platform c = Inr ()" for c
    by (simp add: demo_platform_def)
  have a: "\<not> truthy_opt (no_env (js ''R2_ENDPOINT''))"
    by (simp add: no_env_def truthy_opt_def)
  note t1 = uploadToR2_spec [of no_env demo_platform empty_world
      "file_named (js ''a.pdf'') (js ''application/pdf'')"]
  note t2 = uploadToR2_spec [of r2_env demo_platform empty_world
      "file_named (js ''a.pdf'') (js ''application/pdf'')"]
  note t3 = uploadToR2_spec [of r2_public_env demo_platform empty_world
      "file_named (js ''a.pdf'') (js ''application/pdf'')"]
  have b: "uploadToR2 demo_platform no_env empty_world (file_named (js ''a.pdf'') (js ''application/pdf'')) =
       (Inr None, empty_world)"
    using t1 a by simp
  have on: "truthy_opt (r2_env (js ''R2_ENDPOINT''))" "truthy_opt (r2_env (js ''R2_ACCESS_KEY_ID''))"
    "truthy_opt (r2_env (js ''R2_SECRET_ACCESS_KEY''))" "truthy_opt (r2_env (js ''R2_BUCKET''))"
    "\<not> truthy_opt (r2_env (js ''R2_PUBLIC_URL''))"
    by (simp_all add: r2_env_values truthy_opt_def truthy_def js_nonempty)
  have on': "truthy_opt (r2_public_env (js ''R2_ENDPOINT''))" "truthy_opt (r2_public_env (js ''R2_ACCESS_KEY_ID''))"
    "truthy_opt (r2_public_env (js ''R2_SECRET_ACCESS_KEY''))" "truthy_opt (r2_public_env (js ''R2_BUCKET''))"
    "truthy_opt (r2_public_env (js ''R2_PUBLIC_URL''))"
    by (simp_all add: r2_public_env_values truthy_opt_def truthy_def js_nonempty)
  from t2 on obtain c where c: "trace (snd (uploadToR2 demo_platform r2_env empty_world
         (file_named (js ''a.pdf'') (js ''application/pdf'')))) = trace empty_world @ [S3Send c]"
     "fst (uploadToR2 demo_platform r2_env empty_world (file_named (js ''a.pdf'') (js ''application/pdf''))) = Inr None"
    by (auto simp: s3)
  from t3 on' obtain c' where c': "trace (snd (uploadToR2 demo_platform r2_public_env empty_world
         (file_named (js ''a.pdf'') (js ''application/pdf'')))) = trace empty_world @ [S3Send c']"
     "fst (uploadToR2 demo_platform r2_public_env empty_world (file_named (js ''a.pdf'') (js ''application/pdf''))) =
        Inr (Some (strip_trailing_slash (or_empty (r2_public_env (js ''R2_PUBLIC_URL''))) @ js ''/'' @ Key c'))"
    by (auto simp: s3)
  have k: "Key c' = js ''uploads/'' @ js ''0'' @ js ''-'' @ js ''c0ffee'' @ js ''-'' @ js ''a.pdf''"
    using c'(1) on'
    by (simp add: uploadToR2_def r2Enabled_def Let_def s3 empty_world_def file_named_def)
       (auto simp: demo_platform_def number_to_string.simps js_def)
  show ?thesis
    using a b on(1-4) c c'(2) k
    by (simp add: empty_world_def r2_public_env_values or_empty_def strip_cdn)
qed

section \<open>Missing, corrupt and unreadable credential file\<close>

text \<open>
  \<open>fs.readFileSync\<close> is outside the \<^verbatim>\<open>try\<close> of \<open>readUsers\<close>. When the credential
  file exists and cannot be read (here it is a directory), \<open>readUsers\<close> throws, and a
  login is answered 400 by the error-handling middleware.
\<close>

theorem readUsers_total_counterexample:
  "users_json directory_world = Some (Inl (Error (js ''EISDIR: illegal operation on a directory, read'')))
   \<and> fst (readUsers demo_platform directory_world) =
       Inl (Error (js ''EISDIR: illegal operation on a directory, read''))
   \<and> fst (api_login demo_platform directory_world signed_out login_a_right) =
       \<lparr>status = 400, body = ErrorBody (js ''EISDIR: illegal operation on a directory, read'')\<rparr>"
  by (simp add: directory_world_def readUsers_def api_login_def login_a_right_def
      error_middleware_def truthy_opt_def truthy_def js_neq_Nil)

text \<open>
  C9, as the code has it. When the credential file is missing, or its contents fail to
  parse as JSON, \<open>readUsers\<close> returns \<^verbatim>\<open>{users: []}\<close> and raises nothing; a login with a
  non-empty uid and password is then answered 401 and a nickname update on an
  authenticated session with a non-empty nickname 404, as with a store of no users. The
  read is not total: \<open>readUsers\<close> throws exactly when the file exists and reading it
  throws, and a login is then answered 400 with the message of that error.
\<close>

theorem readUsers_missing_or_corrupt:
  "(users_json w = None \<or> (\<exists>raw. users_json w = Some (Inr raw) \<and> JSON_parse p raw = None) \<longrightarrow>
      fst (readUsers p w) = Inr (JObj [(js ''users'', JArr [])])
      \<and> (truthy_opt (body_uid lr) \<and> truthy_opt (body_password lr) \<longrightarrow>
            fst (api_login p w s lr) =
              \<lparr>status = 401, body = ErrorBody (js ''Invalid credentials'')\<rparr>)
      \<and> (truthy_opt (session_uid s) \<and> truthy (trim (or_empty (body_nickname nr))) \<longrightarrow>
            fst (api_nickname p w s nr) =
              \<lparr>status = 404, body = ErrorBody (js ''User not found'')\<rparr>))
   \<and> (\<forall>err. (fst (readUsers p w) = Inl err) = (users_json w = Some (Inl err)))
   \<and> (\<forall>err. users_json w = Some (Inl err) \<and> truthy_opt (body_uid lr) \<and> truthy_opt (body_password lr) \<longrightarrow>
         fst (api_login p w s lr) = error_middleware err
         \<and> status (fst (api_login p w s lr)) = 400)"
proof -
  have a: "readUsers p w = (Inr empty_store, w\<lparr>trace := trace w @ [ReadUsers]\<rparr>)"
    if "users_json w = None \<or> (\<exists>raw. users_json w = Some (Inr raw) \<and> JSON_parse p raw = None)"
    using that by (auto simp: readUsers_def JSON_parse_def Let_def truthy_def split: option.splits)
  have f: "users_find empty_store cb = Inr None" for cb
    by (simp add: users_find_def empty_store_def)
  have first: "fst (readUsers p w) = Inr (JObj [(js ''users'', JArr [])])
      \<and> (truthy_opt (body_uid lr) \<and> truthy_opt (body_password lr) \<longrightarrow>
            fst (api_login p w s lr) =
              \<lparr>status = 401, body = ErrorBody (js ''Invalid credentials'')\<rparr>)
      \<and> (truthy_opt (session_uid s) \<and> truthy (trim (or_empty (body_nickname nr))) \<longrightarrow>
            fst (api_nickname p w s nr) =
              \<lparr>status = 404, body = ErrorBody (js ''User not found'')\<rparr>)"
    if "users_json w = None \<or> (\<exists>raw. users_json w = Some (Inr raw) \<and> JSON_parse p raw = None)"
    using a [OF that] by (simp add: api_login_def api_nickname_def f Let_def) (simp add: empty_store_def)
  have second: "(fst (readUsers p w) = Inl err) = (users_json w = Some (Inl err))" for err
    by (auto simp: readUsers_def Let_def split: option.splits sum.splits)
  have third: "fst (api_login p w s lr) = error_middleware err
         \<and> status (fst (api_login p w s lr)) = 400"
    if "users_json w = Some (Inl err)" "truthy_opt (body_uid lr)" "truthy_opt (body_password lr)" for err
    using that by (simp add: api_login_def readUsers_def error_middleware_status)
  from first second third show ?thesis by blast
qed

lemma broken_world_parse: "JSON_parse demo_platform (js ''{oops'') = None"
  by (simp add: JSON_parse_def demo_platform_def js_def)

theorem readUsers_missing_or_corrupt_witness:
  "users_json empty_world = None
   \<and> fst (readUsers demo_platform empty_world) = Inr (JObj [(js ''users'', JArr [])])
   \<and> users_json broken_world = Some (Inr (js ''{oops'')) \<and> JSON_parse demo_platform (js ''{oops'') = None
   \<and> fst (readUsers demo_platform broken_world) = Inr (JObj [(js ''users'', JArr [])])
   \<and> fst (api_login demo_platform broken_world signed_out login_a_right) =
       \<lparr>status = 401, body = ErrorBody (js ''Invalid credentials'')\<rparr>
   \<and> fst (api_nickname demo_platform broken_world signed_in \<lparr>body_nickname = Some (js ''  Neo '')\<rparr>) =
       \<lparr>status = 404, body = ErrorBody (js ''User not found'')\<rparr>
   \<and> fst (api_login demo_platform directory_world signed_out login_a_right) =
       error_middleware (Error (js ''EISDIR: illegal operation on a directory, read''))"
proof -
  have e: "users_json empty_world = None"
    by (simp add: empty_world_def)
  have b: "users_json broken_world = Some (Inr (js ''{oops''))"
    by (simp add: broken_world_def)
  have d: "users_json directory_world = Some (Inl (Error (js ''EISDIR: illegal operation on a directory, read'')))"
    by (simp add: directory_world_def)
  have c: "truthy_opt (body_uid login_a_right)" "truthy_opt (body_password login_a_right)"
    "truthy_opt (session_uid signed_in)" "truthy (trim (or_empty (Some (js ''  Neo ''))))"
    by (simp_all add: login_a_right_def signed_in_def truthy_opt_def truthy_def or_empty_def
        trim_Neo js_neq_Nil)
  show ?thesis
    using
      readUsers_missing_or_corrupt [of empty_world demo_platform]
      readUsers_missing_or_corrupt [of broken_world demo_platform login_a_right signed_out]
      readUsers_missing_or_corrupt [of broken_world demo_platform login_a_right signed_in
        "\<lparr>body_nickname = Some (js ''  Neo '')\<rparr>"]
      readUsers_missing_or_corrupt [of directory_world demo_platform login_a_right signed_out]
    by (simp add: e b d c broken_world_parse)
qed

section \<open>Audio and video uploads\<close>

text \<open>
  C10. A bot request whose file part has a MIME type starting with \<open>audio/\<close> or
  \<open>video/\<close> is refused by the upload layer with the error
  \<open>Audio/video files are not supported.\<close>, which the error-handling middleware answers
  with status 400 and that message. The world is unchanged: the file is not stored and not
  read, so extraction, and with it the UTF-8 fallback, never runs on it.
\<close>

theorem audio_video_rejected:
  assumes "upload req = Some f"
      and "startsWith (part_mimetype f) (js ''audio/'') \<or> startsWith (part_mimetype f) (js ''video/'')"
  shows "api_bot p env w s req =
           (\<lparr>status = 400, body = ErrorBody (js ''Audio/video files are not supported.'')\<rparr>, w)
         \<and> fst (upload_single p w (upload req)) =
             Inl (Error (js ''Audio/video files are not supported.''))"
proof -
  have "truthy (js ''Audio/video files are not supported.'')"
    by (simp add: truthy_def js_def)
  with assms show ?thesis
    by (simp add: api_bot_def upload_single_def fileFilter_def error_middleware_def)
qed

theorem audio_video_rejected_witness:
  "upload audio_request = Some \<lparr>part_filename = js ''a.mp3'', part_mimetype = js ''audio/mpeg'', part_content = [1]\<rparr>
   \<and> startsWith (js ''audio/mpeg'') (js ''audio/'')
   \<and> api_bot demo_platform data_env empty_world signed_in audio_request =
       (\<lparr>status = 400, body = ErrorBody (js ''Audio/video files are not supported.'')\<rparr>, empty_world)"
  using audio_video_rejected [of audio_request
      "\<lparr>part_filename = js ''a.mp3'', part_mimetype = js ''audio/mpeg'', part_content = [1]\<rparr>"
      demo_platform data_env empty_world signed_in]
  by (simp add: audio_request_def startsWith_def) (simp add: js_def)

section \<open>Prompt assembly of the bot endpoint\<close>






















end
